theory Spec2Isabelle
  imports Main "HOL-Library.Word"
begin

section \<open>JavaScript strings\<close>

text \<open>
  A JavaScript string is a sequence of UTF-16 code units; \<open>length\<close> counts code units and
  the regular expressions of the scripts (none has the \<open>u\<close> flag) test single code units.
  \<open>js\<close> embeds an ASCII literal of the scripts.
\<close>

type_synonym code_unit = "16 word"
type_synonym js_string = "code_unit list"

definition js :: "string \<Rightarrow> js_string" where
  "js s = map of_char s"

text \<open>
  Number-to-string conversion of an integer, as the template literals and the assignment to
  \<open>textContent\<close> perform it (decimal digits, a leading minus sign for a negative number;
  JavaScript switches to exponent notation only from \<open>10^21\<close> on).
\<close>

fun decimal :: "nat \<Rightarrow> js_string" where
  "decimal n = (if n < 10 then [of_nat (48 + n)] else decimal (n div 10) @ [of_nat (48 + n mod 10)])"

declare decimal.simps [simp del]

definition js_toString :: "int \<Rightarrow> js_string" where
  "js_toString n = (if n < 0 then 45 # decimal (nat (- n)) else decimal (nat n))"

text \<open>Reading a digit string back, to say what "decimal rendering" means.\<close>

definition digit_value :: "code_unit \<Rightarrow> nat" where
  "digit_value c = unat c - 48"

definition is_digit :: "code_unit \<Rightarrow> bool" where
  "is_digit c = (48 \<le> c \<and> c \<le> 57)"

definition digits_value :: "js_string \<Rightarrow> nat" where
  "digits_value s = foldl (\<lambda>acc c. 10 * acc + digit_value c) 0 s"

text \<open>\<open>Array.prototype.join\<close> and \<open>Array.prototype.slice(0, end)\<close>.\<close>

fun join :: "js_string \<Rightarrow> js_string list \<Rightarrow> js_string" where
  "join sep [] = []"
| "join sep [x] = x"
| "join sep (x # y # ys) = x @ sep @ join sep (y # ys)"

definition slice0 :: "'a list \<Rightarrow> int \<Rightarrow> 'a list" where
  "slice0 xs e = (if e < 0 then take (length xs - nat (- e)) xs else take (nat e) xs)"

section \<open>Notification poller (dashboard script)\<close>

record flag =
  student_name :: js_string
  flagged_at :: js_string
  flag_keywords :: "js_string list"

text \<open>The decoded body of \<open>GET /counselor/check-notifications\<close>.\<close>

record response =
  count :: int
  flags :: "flag list"

text \<open>\<open>Notification.permission\<close> is one of "default", "granted", "denied".\<close>

datatype permission = Default | Granted | Denied

datatype error = NetworkError | DecodeError | TypeError

text \<open>
  What a poll reads from the browser: whether \<open>"Notification" in window\<close> holds, the
  current permission, and whether \<open>window.AudioContext || window.webkitAudioContext\<close> is a
  constructor.
\<close>

record browser =
  notificationSupported :: bool
  notificationPermission :: permission
  audioAvailable :: bool

text \<open>
  The observable actions of the script, in the order it performs them. A timer is recorded
  when it is set, with its delay in milliseconds.
\<close>

datatype effect =
    ShowInAppNotificationAfter nat flag
  | NewNotification js_string js_string
  | RequestPermission
  | NotificationSound
  | BadgeBounceAfter nat
  | LocationReload
  | ConsoleError error
  | PermissionModal js_string js_string bool
  | HideEnableButton
  | UnhandledRejection error

text \<open>
  The mutable state a poll touches: the script variable \<open>lastNotificationCount\<close>, the
  element \<open>[data-tab="flagged"]\<close> (absent, or present with the texts of its
  \<open>.notification-badge\<close> children in document order), and whether \<open>#flagged-tab\<close> exists and
  carries the class \<open>active\<close>.
\<close>

record page =
  lastNotificationCount :: int
  flaggedLink :: "js_string list option"
  flaggedTabActive :: bool

text \<open>
  \<open>createBrowserNotification(title, flag)\<close>: the body reads \<open>flag.student_name\<close>, which
  throws a TypeError when \<open>flag\<close> is \<open>undefined\<close>.
\<close>

definition createBrowserNotification :: "js_string \<Rightarrow> flag option \<Rightarrow> error + effect list" where
  "createBrowserNotification title flag =
     (case flag of
        None \<Rightarrow> Inl TypeError
      | Some f \<Rightarrow>
          Inr [NewNotification title
                 (js ''Student: '' @ student_name f @ [10] @ js ''Keywords: ''
                    @ join (js '', '') (flag_keywords f))])"

text \<open>
  \<open>showBrowserNotification(title, flag)\<close>. With the permission neither granted nor
  denied it calls \<open>Notification.requestPermission()\<close> and returns; the \<open>then\<close>
  callback runs once the request is resolved, after the synchronous rest of the poll and
  outside its \<open>try\<close> block. The result is the actions performed at once and the actions
  of that callback, given the \<open>answer\<close> the request resolves to: on "granted" it calls
  \<open>createBrowserNotification(title, flag)\<close>, and an exception thrown there rejects the
  promise with nothing to handle it. A request that is never resolved behaves like an answer
  other than "granted".
\<close>

definition showBrowserNotification ::
    "browser \<Rightarrow> permission \<Rightarrow> js_string \<Rightarrow> flag option \<Rightarrow> error + effect list \<times> effect list" where
  "showBrowserNotification br answer title flag =
     (if \<not> notificationSupported br then Inr ([], [])
      else if notificationPermission br = Granted then
        (case createBrowserNotification title flag of
           Inl e \<Rightarrow> Inl e
         | Inr shown \<Rightarrow> Inr (shown, []))
      else if notificationPermission br \<noteq> Denied then
        Inr ([RequestPermission],
             if answer = Granted
             then (case createBrowserNotification title flag of
                     Inl e \<Rightarrow> [UnhandledRejection e]
                   | Inr shown \<Rightarrow> shown)
             else [])
      else Inr ([], []))"

text \<open>\<open>playNotificationSound()\<close>: \<open>new (undefined)()\<close> throws a TypeError.\<close>

definition playNotificationSound :: "browser \<Rightarrow> error + effect list" where
  "playNotificationSound br = (if audioAvailable br then Inr [NotificationSound] else Inl TypeError)"

text \<open>
  \<open>updateNotificationBadge(count)\<close>: \<open>querySelector\<close> finds the first badge, which is
  removed; a new badge is appended when \<open>count > 0\<close>.
\<close>

definition updateNotificationBadge :: "int \<Rightarrow> js_string list option \<Rightarrow> effect list \<times> js_string list option" where
  "updateNotificationBadge n link =
     (case link of
        None \<Rightarrow> ([], None)
      | Some badges \<Rightarrow>
          (let remaining = (case badges of [] \<Rightarrow> [] | existingBadge # others \<Rightarrow> others)
           in if n > 0
              then ([BadgeBounceAfter 100],
                    Some (remaining @ [if n > 99 then js ''99+'' else js_toString n]))
              else ([], Some remaining)))"

text \<open>
  \<open>forEach((flag, index) => setTimeout(() => showInAppNotification(flag), index * 500))\<close>.
\<close>

definition stagger :: "flag list \<Rightarrow> effect list" where
  "stagger fs = map (\<lambda>(index, f). ShowInAppNotificationAfter (index * 500) f) (enumerate 0 fs)"

text \<open>\<open>data.flags[0]\<close>, which is \<open>undefined\<close> for an empty array.\<close>

definition first_flag :: "flag list \<Rightarrow> flag option" where
  "first_flag fs = (case fs of [] \<Rightarrow> None | f # _ \<Rightarrow> Some f)"

text \<open>
  The first conditional of \<open>checkForNewNotifications\<close>: toasts, browser notification, sound.
  It returns the actions performed, the actions of the pending permission callback, and the
  exception that ended it, if one did; the timers set and the request made before an
  exception stay in place.
\<close>

definition alertNewFlags ::
    "browser \<Rightarrow> permission \<Rightarrow> response \<Rightarrow> int \<Rightarrow> effect list \<times> effect list \<times> error option" where
  "alertNewFlags br answer data lastCount =
     (if count data > lastCount \<and> lastCount > 0 then
        (let newFlags = count data - lastCount;
             toasts = stagger (slice0 (flags data) newFlags)
         in case showBrowserNotification br answer
                   (js_toString newFlags @ js '' New High-Risk Alert(s)'') (first_flag (flags data)) of
              Inl e \<Rightarrow> (toasts, [], Some e)
            | Inr (shown, later) \<Rightarrow>
                (case playNotificationSound br of
                   Inl e \<Rightarrow> (toasts @ shown, later, Some e)
                 | Inr ding \<Rightarrow> (toasts @ shown @ ding, later, None)))
      else ([], [], None))"

text \<open>
  \<open>checkForNewNotifications()\<close>. The argument \<open>fetched\<close> is the outcome of
  \<open>fetch\<close> and \<open>response.json()\<close>, \<open>answer\<close> what a permission request made by
  this poll resolves to. Every exception of the body reaches the one \<open>catch\<close>, which logs
  it. Nothing after the two \<open>await\<close>s suspends, so the rest of the body runs as one step on
  the page; the actions of the permission callback come after it. \<open>location.reload()\<close> is
  recorded as an action; the assignment to \<open>lastNotificationCount\<close> that follows it still
  runs.
\<close>

definition checkForNewNotifications ::
    "browser \<Rightarrow> permission \<Rightarrow> error + response \<Rightarrow> page \<Rightarrow> effect list \<times> page" where
  "checkForNewNotifications br answer fetched pg =
     (case fetched of
        Inl e \<Rightarrow> ([ConsoleError e], pg)
      | Inr data \<Rightarrow>
          (case alertNewFlags br answer data (lastNotificationCount pg) of
             (alerts, later, Some e) \<Rightarrow> (alerts @ [ConsoleError e] @ later, pg)
           | (alerts, later, None) \<Rightarrow>
               (case updateNotificationBadge (count data) (flaggedLink pg) of
                  (bounce, link) \<Rightarrow>
                    (alerts @ bounce
                       @ (if flaggedTabActive pg \<and> count data > lastNotificationCount pg
                             \<and> lastNotificationCount pg > 0
                          then [LocationReload] else [])
                       @ later,
                     pg\<lparr>flaggedLink := link, lastNotificationCount := count data\<rparr>))))"

text \<open>
  The click handler of \<open>#enable-notifications-btn\<close>. \<open>answer\<close> is what the permission
  request resolves to, \<open>now\<close> the timestamp of the test notification.
\<close>

definition enableNotificationsClick :: "browser \<Rightarrow> permission \<Rightarrow> js_string \<Rightarrow> effect list" where
  "enableNotificationsClick br answer now =
     (if \<not> notificationSupported br
      then [PermissionModal (js ''Not Supported'')
              (js ''Your browser doesn't support desktop notifications.'') False]
      else RequestPermission #
        (if answer = Granted
         then [PermissionModal (js ''Notifications Enabled!'')
                 (js ''You'll now receive real-time alerts for high-risk messages.'') True,
               HideEnableButton,
               ShowInAppNotificationAfter 1000
                 \<lparr>student_name = js ''Test Student'', flagged_at = now,
                  flag_keywords = [js ''test notification'']\<rparr>]
         else [PermissionModal (js ''Notifications Blocked'')
                 (js ''Please enable notifications in your browser settings to receive alerts.'')
                 False]))"

text \<open>Classifying the actions of the alert pipeline.\<close>

fun is_toast :: "effect \<Rightarrow> bool" where
  "is_toast (ShowInAppNotificationAfter _ _) = True"
| "is_toast _ = False"

fun is_alert :: "effect \<Rightarrow> bool" where
  "is_alert (ShowInAppNotificationAfter _ _) = True"
| "is_alert (NewNotification _ _) = True"
| "is_alert RequestPermission = True"
| "is_alert NotificationSound = True"
| "is_alert _ = False"

fun is_logged :: "effect \<Rightarrow> bool" where
  "is_logged (ConsoleError _) = True"
| "is_logged _ = False"

fun is_notification :: "effect \<Rightarrow> bool" where
  "is_notification (NewNotification _ _) = True"
| "is_notification _ = False"

text \<open>Concrete flags, browsers and pages for the examples.\<close>

definition flag_a :: flag where
  "flag_a = \<lparr>student_name = js ''Ada'', flagged_at = js ''2025-03-01T10:00:00Z'',
             flag_keywords = [js ''hopeless'', js ''alone'']\<rparr>"

definition flag_b :: flag where
  "flag_b = \<lparr>student_name = js ''Ben'', flagged_at = js ''2025-03-01T09:30:00Z'',
             flag_keywords = [js ''panic'']\<rparr>"

definition flag_c :: flag where
  "flag_c = \<lparr>student_name = js ''Cy'', flagged_at = js ''2025-02-27T18:05:00Z'',
             flag_keywords = []\<rparr>"

definition asking :: browser where
  "asking = \<lparr>notificationSupported = True, notificationPermission = Default,
              audioAvailable = True\<rparr>"

definition granted :: browser where
  "granted = \<lparr>notificationSupported = True, notificationPermission = Granted,
               audioAvailable = True\<rparr>"

definition page_with :: "int \<Rightarrow> page" where
  "page_with n = \<lparr>lastNotificationCount = n, flaggedLink = Some [js_toString n],
                  flaggedTabActive = False\<rparr>"

section \<open>Password strength (dashboard script and reset-password script)\<close>

text \<open>The character classes \<open>[a-z]\<close>, \<open>[A-Z]\<close>, \<open>\d\<close> (above) and \<open>[^a-zA-Z\d]\<close>.\<close>

definition is_lower :: "code_unit \<Rightarrow> bool" where
  "is_lower c = (97 \<le> c \<and> c \<le> 122)"

definition is_upper :: "code_unit \<Rightarrow> bool" where
  "is_upper c = (65 \<le> c \<and> c \<le> 90)"

definition is_symbol :: "code_unit \<Rightarrow> bool" where
  "is_symbol c = (\<not> is_lower c \<and> \<not> is_upper c \<and> \<not> is_digit c)"

text \<open>The five tests that both strength functions count.\<close>

definition criteria :: "js_string \<Rightarrow> nat" where
  "criteria p =
       of_bool (length p \<ge> 8)
     + of_bool (length p \<ge> 12)
     + of_bool (list_ex is_lower p \<and> list_ex is_upper p)
     + of_bool (list_ex is_digit p)
     + of_bool (list_ex is_symbol p)"

record strength =
  level :: nat
  strength_text :: js_string
  strength_color :: js_string

text \<open>
  \<open>checkPasswordStrength(password)\<close> of the dashboard script. The initial text
  \<open>Too weak\<close> is kept as the last branch: the four tests of the source leave it standing
  only if none of them holds.
\<close>

definition checkPasswordStrength :: "js_string \<Rightarrow> strength" where
  "checkPasswordStrength password =
     (let strength =
            of_bool (length password \<ge> 8)
          + of_bool (length password \<ge> 12)
          + of_bool (list_ex is_lower password \<and> list_ex is_upper password)
          + of_bool (list_ex is_digit password)
          + of_bool (list_ex is_symbol password)
      in if strength \<le> 1
         then \<lparr>level = strength, strength_text = js ''Weak password'', strength_color = js ''#f56565''\<rparr>
         else if strength = 2
         then \<lparr>level = strength, strength_text = js ''Fair password'', strength_color = js ''#ed8936''\<rparr>
         else if strength = 3
         then \<lparr>level = strength, strength_text = js ''Good password'', strength_color = js ''#ecc94b''\<rparr>
         else if strength \<ge> 4
         then \<lparr>level = strength, strength_text = js ''Strong password'', strength_color = js ''#48bb78''\<rparr>
         else \<lparr>level = strength, strength_text = js ''Too weak'', strength_color = js ''#f56565''\<rparr>)"

text \<open>\<open>getStrength(pw)\<close> of the reset-password script, with its table \<open>levels\<close>.\<close>

record rating =
  score :: nat
  rating_text :: js_string
  rating_color :: js_string

definition levels :: "(js_string \<times> js_string) list" where
  "levels =
     [(js ''Too short'', js ''#e53e3e''),
      (js ''Weak'', js ''#f56565''),
      (js ''Fair'', js ''#ed8936''),
      (js ''Good'', js ''#ecc94b''),
      (js ''Strong'', js ''#48bb78''),
      (js ''Very strong'', js ''#38a169'')]"

definition getStrength :: "js_string \<Rightarrow> rating" where
  "getStrength pw =
     (let score =
            of_bool (length pw \<ge> 8)
          + of_bool (length pw \<ge> 12)
          + of_bool (list_ex is_lower pw \<and> list_ex is_upper pw)
          + of_bool (list_ex is_digit pw)
          + of_bool (list_ex is_symbol pw)
      in \<lparr>score = score,
          rating_text = fst (levels ! min score 5),
          rating_color = snd (levels ! min score 5)\<rparr>)"

section \<open>Form submission (registration script and dashboard script)\<close>

text \<open>
  \<open>String.prototype.trim\<close> removes the white space and line terminator code units of
  ECMAScript from both ends.
\<close>

definition is_space :: "code_unit \<Rightarrow> bool" where
  "is_space c =
     (List.member [0x9, 0xA, 0xB, 0xC, 0xD, 0x20, 0xA0, 0x1680, 0x2028, 0x2029, 0x202F,
                   0x205F, 0x3000, 0xFEFF] c
      \<or> (0x2000 \<le> c \<and> c \<le> 0x200A))"

definition trim :: "js_string \<Rightarrow> js_string" where
  "trim s = rev (dropWhile is_space (rev (dropWhile is_space s)))"

text \<open>
  What the submit handler of \<open>.registration-form\<close> reads: the values of the elements
  matched by \<open>[required]\<close>, in document order, and the values of
  \<open>#counselor_password\<close> and \<open>#counselor_password_confirm\<close>, each absent on the
  student form.
\<close>

record registration_form =
  requiredFields :: "js_string list"
  passwordField :: "js_string option"
  confirmPasswordField :: "js_string option"

datatype field = RequiredField nat | PasswordField | ConfirmPasswordField

record submission =
  defaultPrevented :: bool
  alerted :: "js_string list"
  focused :: "field option"
  thrown :: "error option"

text \<open>The index of the first required field that is empty after trimming.\<close>

fun firstEmpty :: "nat \<Rightarrow> js_string list \<Rightarrow> nat option" where
  "firstEmpty i [] = None"
| "firstEmpty i (v # vs) = (if trim v = [] then Some i else firstEmpty (Suc i) vs)"

text \<open>
  The submit handler of the registration form. Its last test reads
  \<open>confirmPasswordField.value\<close> without a guard, which throws when only the password
  field exists; \<open>preventDefault\<close> has been called by then.
\<close>

definition registration_submit :: "registration_form \<Rightarrow> submission" where
  "registration_submit form =
     (let empty = list_ex (\<lambda>v. trim v = []) (requiredFields form);
          mismatch = (case (passwordField form, confirmPasswordField form) of
                        (Some p, Some c) \<Rightarrow> p \<noteq> c
                      | _ \<Rightarrow> False);
          short = (case passwordField form of Some p \<Rightarrow> length p < 8 | None \<Rightarrow> False);
          isValid = (\<not> empty \<and> \<not> mismatch \<and> \<not> short);
          firstInvalidField =
            (case firstEmpty 0 (requiredFields form) of
               Some i \<Rightarrow> Some (RequiredField i)
             | None \<Rightarrow> if mismatch then Some ConfirmPasswordField
                       else if short then Some PasswordField else None);
          shown = (if mismatch then [js ''Passwords do not match. Please check and try again.''] else [])
                @ (if short then [js ''Password must be at least 8 characters long.''] else [])
      in if \<not> isValid then
           (case passwordField form of
              None \<Rightarrow>
                \<lparr>defaultPrevented = True,
                 alerted = shown @ [js ''Please fill in all required fields correctly.''],
                 focused = firstInvalidField, thrown = None\<rparr>
            | Some p \<Rightarrow>
                if length p \<ge> 8 then
                  (case confirmPasswordField form of
                     None \<Rightarrow>
                       \<lparr>defaultPrevented = True, alerted = shown, focused = firstInvalidField,
                        thrown = Some TypeError\<rparr>
                   | Some c \<Rightarrow>
                       \<lparr>defaultPrevented = True,
                        alerted = shown @ (if p = c
                                          then [js ''Please fill in all required fields correctly.'']
                                          else []),
                        focused = firstInvalidField, thrown = None\<rparr>)
                else
                  \<lparr>defaultPrevented = True, alerted = shown, focused = firstInvalidField,
                   thrown = None\<rparr>)
         else \<lparr>defaultPrevented = False, alerted = [], focused = None, thrown = None\<rparr>)"

text \<open>
  The submit handler of \<open>#password-change-form\<close>: it reads the values of
  \<open>#new_password\<close> and \<open>#confirm_password\<close> and nothing else.
\<close>

definition passwordForm_submit :: "js_string \<Rightarrow> js_string \<Rightarrow> submission" where
  "passwordForm_submit newPassword confirmPassword =
     (if newPassword \<noteq> confirmPassword
      then \<lparr>defaultPrevented = True,
            alerted = [js ''Passwords do not match. Please check and try again.''],
            focused = None, thrown = None\<rparr>
      else if length newPassword < 8
      then \<lparr>defaultPrevented = True,
            alerted = [js ''Password must be at least 8 characters long.''],
            focused = None, thrown = None\<rparr>
      else \<lparr>defaultPrevented = False, alerted = [], focused = None, thrown = None\<rparr>)"

text \<open>
  The blocking condition in the words of the specification, for a form with the given
  required values and password fields.
\<close>

definition spec_blocks :: "js_string list \<Rightarrow> js_string \<Rightarrow> js_string \<Rightarrow> bool" where
  "spec_blocks required password confirm =
     (list_ex (\<lambda>v. trim v = []) required \<or> password \<noteq> confirm \<or> length password < 8)"

text \<open>A password of eight spaces.\<close>

definition spaces8 :: js_string where
  "spaces8 = js ''        ''"

section \<open>Exercise timers (student dashboard script)\<close>

record phase =
  phase_text :: js_string
  duration :: int
  scale_percent :: nat

text \<open>
  The callback of an interval: \<open>updateBreathing\<close> with the variables of its closure
  (\<open>phases\<close>, \<open>phaseIndex\<close>, \<open>countdown\<close>), or the arrow function of
  \<open>displayStretch\<close>, which works on the script's global variables.
\<close>

datatype callback = UpdateBreathing "phase list" nat int | StretchTick

text \<open>
  The timers of the page and the global variables of the two sequencers. \<open>intervals\<close>
  holds the running intervals with their handles; \<open>setInterval\<close> returns a fresh
  positive integer. A handle variable is \<open>null\<close> or a handle.
\<close>

record dashboard =
  intervals :: "(nat \<times> callback) list"
  nextHandle :: nat
  breathingInterval :: "nat option"
  stretchingInterval :: "nat option"
  currentStretchIndex :: nat
  stretchSequence :: "js_string list"
  stretchCountdown :: int
  breathingModalShown :: bool
  stretchingModalShown :: bool
  sessionsCompleted :: nat

definition setInterval :: "callback \<Rightarrow> dashboard \<Rightarrow> nat \<times> dashboard" where
  "setInterval cb d =
     (nextHandle d,
      d\<lparr>intervals := intervals d @ [(nextHandle d, cb)], nextHandle := nextHandle d + 1\<rparr>)"

definition clearInterval :: "nat option \<Rightarrow> dashboard \<Rightarrow> dashboard" where
  "clearInterval handle d =
     (case handle of
        None \<Rightarrow> d
      | Some h \<Rightarrow> d\<lparr>intervals := filter (\<lambda>(h', cb). h' \<noteq> h) (intervals d)\<rparr>)"

text \<open>The truth value of a handle variable: \<open>null\<close> and \<open>0\<close> are false.\<close>

definition truthy :: "nat option \<Rightarrow> bool" where
  "truthy handle = (case handle of None \<Rightarrow> False | Some h \<Rightarrow> h \<noteq> 0)"

definition breathingPhases :: "js_string \<Rightarrow> phase list" where
  "breathingPhases type =
     (if type = js ''box'' then
        [\<lparr>phase_text = js ''Breathe In'', duration = 4, scale_percent = 120\<rparr>,
         \<lparr>phase_text = js ''Hold'', duration = 4, scale_percent = 120\<rparr>,
         \<lparr>phase_text = js ''Breathe Out'', duration = 4, scale_percent = 100\<rparr>,
         \<lparr>phase_text = js ''Hold'', duration = 4, scale_percent = 100\<rparr>]
      else if type = js ''478'' then
        [\<lparr>phase_text = js ''Breathe In'', duration = 4, scale_percent = 120\<rparr>,
         \<lparr>phase_text = js ''Hold'', duration = 7, scale_percent = 120\<rparr>,
         \<lparr>phase_text = js ''Breathe Out'', duration = 8, scale_percent = 100\<rparr>]
      else
        [\<lparr>phase_text = js ''Breathe In'', duration = 5, scale_percent = 120\<rparr>,
         \<lparr>phase_text = js ''Breathe Out'', duration = 5, scale_percent = 100\<rparr>])"

text \<open>
  \<open>updateBreathing()\<close> on the variables of its closure; the three phase lists are not
  empty, so \<open>phases[phaseIndex]\<close> is always defined.
\<close>

definition updateBreathing :: "phase list \<Rightarrow> nat \<Rightarrow> int \<Rightarrow> nat \<times> int" where
  "updateBreathing phases phaseIndex countdown =
     (if countdown - 1 < 0
      then ((phaseIndex + 1) mod length phases,
            duration (phases ! ((phaseIndex + 1) mod length phases)))
      else (phaseIndex, countdown - 1))"

text \<open>
  \<open>startBreathingExercise(type)\<close>: one call of \<open>updateBreathing\<close>, then
  \<open>breathingInterval = setInterval(updateBreathing, 1000)\<close>.
\<close>

definition startBreathingExercise :: "js_string \<Rightarrow> dashboard \<Rightarrow> dashboard" where
  "startBreathingExercise type d =
     (let phases = breathingPhases type;
          (phaseIndex, countdown) = updateBreathing phases 0 (duration (phases ! 0));
          (handle, d') = setInterval (UpdateBreathing phases phaseIndex countdown)
                           (d\<lparr>breathingModalShown := True\<rparr>)
      in d'\<lparr>breathingInterval := Some handle\<rparr>)"

definition stopBreathingExercise :: "dashboard \<Rightarrow> dashboard" where
  "stopBreathingExercise d =
     (if truthy (breathingInterval d)
      then (clearInterval (breathingInterval d) d)
             \<lparr>breathingInterval := None, breathingModalShown := False\<rparr>
      else d\<lparr>breathingModalShown := False\<rparr>)"

definition stretches :: "js_string \<Rightarrow> js_string list" where
  "stretches type =
     (if type = js ''neck'' then
        [js ''Tilt your head to the right, hold for 30 seconds'',
         js ''Tilt your head to the left, hold for 30 seconds'',
         js ''Look down, bringing chin to chest, hold for 30 seconds'',
         js ''Look up gently, hold for 30 seconds'']
      else if type = js ''shoulder'' then
        [js ''Roll shoulders backward 10 times'',
         js ''Roll shoulders forward 10 times'',
         js ''Raise shoulders to ears, hold 5 seconds, release'',
         js ''Pull shoulders back, squeeze shoulder blades'']
      else
        [js ''Reach arms overhead, stretch tall'',
         js ''Bend forward, touch toes (or as far as comfortable)'',
         js ''Twist torso to the right, hold'',
         js ''Twist torso to the left, hold'',
         js ''Side bend to the right'',
         js ''Side bend to the left''])"

text \<open>
  \<open>displayStretch()\<close>:
  \<open>if (stretchingInterval) clearInterval(stretchingInterval)\<close> comes before
  \<open>stretchingInterval = setInterval(...)\<close>.
\<close>

definition displayStretch :: "dashboard \<Rightarrow> dashboard" where
  "displayStretch d =
     (let d1 = d\<lparr>stretchCountdown := 30\<rparr>;
          d2 = (if truthy (stretchingInterval d1) then clearInterval (stretchingInterval d1) d1
                else d1);
          (handle, d3) = setInterval StretchTick d2
      in d3\<lparr>stretchingInterval := Some handle\<rparr>)"

definition stopStretchingExercise :: "dashboard \<Rightarrow> dashboard" where
  "stopStretchingExercise d =
     (if truthy (stretchingInterval d)
      then (clearInterval (stretchingInterval d) d)
             \<lparr>stretchingInterval := None, stretchingModalShown := False\<rparr>
      else d\<lparr>stretchingModalShown := False\<rparr>)"

text \<open>
  \<open>nextStretch()\<close>; the alert that ends a session is counted in
  \<open>sessionsCompleted\<close>.
\<close>

definition nextStretch :: "dashboard \<Rightarrow> dashboard" where
  "nextStretch d =
     (let d1 = d\<lparr>currentStretchIndex := currentStretchIndex d + 1\<rparr>
      in if currentStretchIndex d1 < length (stretchSequence d1)
         then displayStretch d1
         else (stopStretchingExercise d1)\<lparr>sessionsCompleted := sessionsCompleted d1 + 1\<rparr>)"

definition startStretchingExercise :: "js_string \<Rightarrow> dashboard \<Rightarrow> dashboard" where
  "startStretchingExercise type d =
     displayStretch
       (d\<lparr>stretchingModalShown := True, stretchSequence := stretches type,
          currentStretchIndex := 0\<rparr>)"

text \<open>
  One firing of the interval with handle \<open>h\<close>; a cleared interval does not fire. The
  callback of \<open>displayStretch\<close> decrements \<open>stretchCountdown\<close> and at zero
  clears \<open>stretchingInterval\<close> and calls \<open>nextStretch\<close>.
\<close>

definition fire :: "nat \<Rightarrow> dashboard \<Rightarrow> dashboard" where
  "fire h d =
     (case map_of (intervals d) h of
        None \<Rightarrow> d
      | Some (UpdateBreathing phases phaseIndex countdown) \<Rightarrow>
          (case updateBreathing phases phaseIndex countdown of
             (phaseIndex', countdown') \<Rightarrow>
               d\<lparr>intervals :=
                    map (\<lambda>(h', cb). if h' = h then (h', UpdateBreathing phases phaseIndex' countdown')
                                     else (h', cb))
                      (intervals d)\<rparr>)
      | Some StretchTick \<Rightarrow>
          (let d1 = d\<lparr>stretchCountdown := stretchCountdown d - 1\<rparr>
           in if stretchCountdown d1 \<le> 0
              then nextStretch (clearInterval (stretchingInterval d1) d1)
              else d1))"

text \<open>The events of the page that reach the two sequencers, and a run of them.\<close>

datatype event =
    StartBreathing js_string
  | StopBreathing
  | StartStretching js_string
  | NextStretch
  | StopStretching
  | Fire nat

fun handle_event :: "dashboard \<Rightarrow> event \<Rightarrow> dashboard" where
  "handle_event d (StartBreathing type) = startBreathingExercise type d"
| "handle_event d StopBreathing = stopBreathingExercise d"
| "handle_event d (StartStretching type) = startStretchingExercise type d"
| "handle_event d NextStretch = nextStretch d"
| "handle_event d StopStretching = stopStretchingExercise d"
| "handle_event d (Fire h) = fire h d"

definition run :: "event list \<Rightarrow> dashboard \<Rightarrow> dashboard" where
  "run events d = foldl handle_event d events"

definition loaded :: dashboard where
  "loaded =
     \<lparr>intervals = [], nextHandle = 1, breathingInterval = None, stretchingInterval = None,
      currentStretchIndex = 0, stretchSequence = [], stretchCountdown = 0,
      breathingModalShown = False, stretchingModalShown = False, sessionsCompleted = 0\<rparr>"

fun is_breathing :: "nat \<times> callback \<Rightarrow> bool" where
  "is_breathing (h, UpdateBreathing _ _ _) = True"
| "is_breathing (h, StretchTick) = False"

fun is_stretching :: "nat \<times> callback \<Rightarrow> bool" where
  "is_stretching (h, StretchTick) = True"
| "is_stretching (h, UpdateBreathing _ _ _) = False"

text \<open>
  The invariant of the stretching sequencer: handles are positive, fresh and distinct, and
  every running interval of \<open>displayStretch\<close> is the one whose handle
  \<open>stretchingInterval\<close> holds.
\<close>

definition stretch_inv :: "dashboard \<Rightarrow> bool" where
  "stretch_inv d =
     (list_all (\<lambda>(h, cb). 0 < h \<and> h < nextHandle d) (intervals d)
      \<and> distinct (map fst (intervals d))
      \<and> list_all (\<lambda>(h, cb). cb \<noteq> StretchTick \<or> stretchingInterval d = Some h) (intervals d)
      \<and> 0 < nextHandle d)"

section \<open>Properties of the badge\<close>

lemma digits_value_snoc:
  "digits_value (s @ [c]) = 10 * digits_value s + digit_value c"
  by (simp add: digits_value_def)

lemma unat_digit: "d < 10 \<Longrightarrow> unat (of_nat (48 + d) :: code_unit) = 48 + d"
  by (subst unat_of_nat) simp

lemma digit_value_of_nat:
  "d < 10 \<Longrightarrow> digit_value (of_nat (48 + d)) = d"
  using unat_digit [of d] by (simp only: digit_value_def)

lemma is_digit_of_nat:
  "d < 10 \<Longrightarrow> is_digit (of_nat (48 + d))"
  using unat_digit [of d] by (simp only: is_digit_def word_le_nat_alt) simp

lemma decimal_small: "n < 10 \<Longrightarrow> decimal n = [of_nat (48 + n)]"
  by (subst decimal.simps) (simp del: of_nat_add)

lemma decimal_large:
  "\<not> n < 10 \<Longrightarrow> decimal n = decimal (n div 10) @ [of_nat (48 + n mod 10)]"
  by (subst decimal.simps) (simp del: of_nat_add)

text \<open>The digits written for \<open>n\<close> read back as \<open>n\<close>.\<close>

lemma digits_value_decimal: "digits_value (decimal n) = n"
proof (induction n rule: decimal.induct)
  case (1 n)
  show ?case
  proof (cases "n < 10")
    case True
    then show ?thesis
      using digit_value_of_nat [of n] by (simp add: decimal_small digits_value_def del: of_nat_add)
  next
    case False
    then have "digits_value (decimal n) = 10 * digits_value (decimal (n div 10)) + n mod 10"
      using digit_value_of_nat [of "n mod 10"]
      by (simp add: decimal_large digits_value_snoc del: of_nat_add)
    with False 1 show ?thesis by simp
  qed
qed

lemma is_digit_decimal: "list_all is_digit (decimal n)"
proof (induction n rule: decimal.induct)
  case (1 n)
  show ?case
  proof (cases "n < 10")
    case True
    then show ?thesis
      using is_digit_of_nat [of n] by (simp add: decimal_small del: of_nat_add)
  next
    case False
    with 1 show ?thesis
      using is_digit_of_nat [of "n mod 10"] by (simp add: decimal_large del: of_nat_add)
  qed
qed

text \<open>
  Claim C10. After \<open>updateNotificationBadge(n)\<close> on a link that carried at most one badge:
  for \<open>n = 0\<close> (and for a negative \<open>n\<close>) the link has no badge; for \<open>0 < n \<le> 99\<close> it has
  exactly one badge, whose text is the decimal digits of \<open>n\<close>; for \<open>n > 99\<close> it has exactly
  one badge with the text \<open>99+\<close>. The earlier badge is gone in each case, so at most one
  badge exists. The decimal digits of a number are digits and read back as the number.
\<close>

theorem badge_shows_count:
  assumes "length badges \<le> 1"
  shows "snd (updateNotificationBadge n (Some badges)) =
           Some (if n \<le> 0 then [] else if n \<le> 99 then [decimal (nat n)] else [js ''99+''])
         \<and> digits_value (decimal (nat n)) = nat n
         \<and> list_all is_digit (decimal (nat n))"
proof -
  have "(case badges of [] \<Rightarrow> [] | existingBadge # others \<Rightarrow> others) = []"
    using assms by (cases badges) auto
  then show ?thesis
    by (simp add: updateNotificationBadge_def js_toString_def digits_value_decimal is_digit_decimal)
qed

theorem badge_shows_count_witness:
  "length [js ''3''] \<le> 1
   \<and> snd (updateNotificationBadge 5 (Some [js ''3''])) = Some [js ''5'']
   \<and> snd (updateNotificationBadge 0 (Some [js ''3''])) = Some []
   \<and> snd (updateNotificationBadge 100 (Some [js ''3''])) = Some [js ''99+'']"
  using badge_shows_count [of "[js ''3'']" 5] badge_shows_count [of "[js ''3'']" 0]
    badge_shows_count [of "[js ''3'']" 100]
  by (simp add: js_def decimal.simps)

text \<open>A link that is absent stays absent, and the bound on the badges is kept by every update.\<close>

lemma badge_at_most_one:
  "length badges \<le> 1 \<Longrightarrow>
   snd (updateNotificationBadge n (Some badges)) = Some badges' \<Longrightarrow> length badges' \<le> 1"
  by (cases badges) (auto simp: updateNotificationBadge_def split: if_splits)

section \<open>Properties of a poll\<close>

lemma stagger_nth:
  "stagger fs = map (\<lambda>i. ShowInAppNotificationAfter (500 * i) (fs ! i)) [0..<length fs]"
  by (rule nth_equalityI) (simp_all add: stagger_def nth_enumerate_eq)

lemma stagger_effects:
  "filter is_toast (stagger fs) = stagger fs
   \<and> \<not> list_ex is_logged (stagger fs) \<and> NotificationSound \<notin> set (stagger fs)
   \<and> filter is_notification (stagger fs) = [] \<and> RequestPermission \<notin> set (stagger fs)
   \<and> LocationReload \<notin> set (stagger fs)"
  by (auto simp: stagger_def list_ex_iff filter_map o_def split_def filter_empty_conv)

lemma badge_actions:
  "fst (updateNotificationBadge n link) =
     (if link \<noteq> None \<and> n > 0 then [BadgeBounceAfter 100] else [])"
  by (simp add: updateNotificationBadge_def Let_def split: option.splits)

lemma badge_link:
  "snd (updateNotificationBadge n link) =
     (case link of
        None \<Rightarrow> None
      | Some badges \<Rightarrow>
          Some (drop 1 badges
                @ (if n \<le> 0 then [] else if n \<le> 99 then [decimal (nat n)] else [js ''99+''])))"
proof (cases link)
  case None
  then show ?thesis by (simp add: updateNotificationBadge_def)
next
  case (Some badges)
  then show ?thesis
    by (cases badges) (auto simp: updateNotificationBadge_def js_toString_def)
qed

lemma showBrowserNotification_cases:
  "showBrowserNotification br answer title fl =
     (if notificationSupported br \<and> notificationPermission br = Granted then
        (case fl of
           None \<Rightarrow> Inl TypeError
         | Some f \<Rightarrow>
             Inr ([NewNotification title
                     (js ''Student: '' @ student_name f @ [10] @ js ''Keywords: ''
                        @ join (js '', '') (flag_keywords f))], []))
      else if notificationSupported br \<and> notificationPermission br = Default then
        Inr ([RequestPermission],
             if answer = Granted
             then (case fl of
                     None \<Rightarrow> [UnhandledRejection TypeError]
                   | Some f \<Rightarrow>
                       [NewNotification title
                          (js ''Student: '' @ student_name f @ [10] @ js ''Keywords: ''
                             @ join (js '', '') (flag_keywords f))])
             else [])
      else Inr ([], []))"
  by (cases "notificationPermission br")
     (auto simp: showBrowserNotification_def createBrowserNotification_def split: option.splits)

lemma alertNewFlags_idle:
  "\<not> (count data > lastCount \<and> lastCount > 0) \<Longrightarrow>
   alertNewFlags br answer data lastCount = ([], [], None)"
  by (auto simp: alertNewFlags_def)

text \<open>The actions of the alert pipeline when it runs to its end.\<close>

lemma alertNewFlags_completed:
  assumes "alertNewFlags br answer data lastCount = (acts, later, None)"
    and "count data > lastCount \<and> lastCount > 0"
  shows "acts = stagger (slice0 (flags data) (count data - lastCount))
           @ (if notificationSupported br \<and> notificationPermission br = Granted
              then (case flags data of
                      [] \<Rightarrow> []
                    | f # _ \<Rightarrow>
                        [NewNotification
                           (js_toString (count data - lastCount) @ js '' New High-Risk Alert(s)'')
                           (js ''Student: '' @ student_name f @ [10] @ js ''Keywords: ''
                              @ join (js '', '') (flag_keywords f))])
              else if notificationSupported br \<and> notificationPermission br = Default
              then [RequestPermission] else [])
           @ [NotificationSound]
       \<and> later = (if notificationSupported br \<and> notificationPermission br = Default
                     \<and> answer = Granted
                  then (case flags data of
                          [] \<Rightarrow> [UnhandledRejection TypeError]
                        | f # _ \<Rightarrow>
                            [NewNotification
                               (js_toString (count data - lastCount) @ js '' New High-Risk Alert(s)'')
                               (js ''Student: '' @ student_name f @ [10] @ js ''Keywords: ''
                                  @ join (js '', '') (flag_keywords f))])
                  else [])
       \<and> (notificationSupported br \<and> notificationPermission br = Granted \<longrightarrow> flags data \<noteq> [])"
  using assms
  by (cases "flags data")
     (auto simp: alertNewFlags_def Let_def showBrowserNotification_cases first_flag_def
        playNotificationSound_def split: if_splits)

lemma alertNewFlags_logs_nothing:
  "\<not> list_ex is_logged (fst (alertNewFlags br answer data lastCount))
   \<and> \<not> list_ex is_logged (fst (snd (alertNewFlags br answer data lastCount)))"
  using stagger_effects
  by (cases "flags data")
     (auto simp: alertNewFlags_def Let_def showBrowserNotification_cases first_flag_def
        playNotificationSound_def)

lemma alertNewFlags_toasts:
  "filter is_toast (fst (alertNewFlags br answer data lastCount)) =
     (if count data > lastCount \<and> lastCount > 0
      then stagger (slice0 (flags data) (count data - lastCount)) else [])
   \<and> filter is_toast (fst (snd (alertNewFlags br answer data lastCount))) = []"
  using stagger_effects
  by (cases "flags data")
     (auto simp: alertNewFlags_def Let_def showBrowserNotification_cases first_flag_def
        playNotificationSound_def)

lemma alertNewFlags_requests:
  "(RequestPermission \<in> set (fst (alertNewFlags br answer data lastCount))) =
     (count data > lastCount \<and> lastCount > 0
      \<and> notificationSupported br \<and> notificationPermission br = Default)
   \<and> RequestPermission \<notin> set (fst (snd (alertNewFlags br answer data lastCount)))"
  using stagger_effects
  by (cases "flags data")
     (auto simp: alertNewFlags_def Let_def showBrowserNotification_cases first_flag_def
        playNotificationSound_def)

lemma alertNewFlags_throws_iff:
  "(snd (snd (alertNewFlags br answer data lastCount)) \<noteq> None) =
     (count data > lastCount \<and> lastCount > 0
      \<and> (notificationSupported br \<and> notificationPermission br = Granted \<and> flags data = []
          \<or> \<not> audioAvailable br))"
  by (cases "flags data")
     (auto simp: alertNewFlags_def Let_def showBrowserNotification_cases first_flag_def
        playNotificationSound_def)

text \<open>The two ways a poll with a decoded response ends.\<close>

lemma poll_thrown:
  "alertNewFlags br answer data (lastNotificationCount pg) = (acts, later, Some e) \<Longrightarrow>
   checkForNewNotifications br answer (Inr data) pg = (acts @ [ConsoleError e] @ later, pg)"
  by (simp add: checkForNewNotifications_def)

lemma poll_completed:
  "alertNewFlags br answer data (lastNotificationCount pg) = (acts, later, None) \<Longrightarrow>
   checkForNewNotifications br answer (Inr data) pg =
     (acts @ fst (updateNotificationBadge (count data) (flaggedLink pg))
        @ (if flaggedTabActive pg \<and> count data > lastNotificationCount pg
              \<and> lastNotificationCount pg > 0 then [LocationReload] else [])
        @ later,
      pg\<lparr>flaggedLink := snd (updateNotificationBadge (count data) (flaggedLink pg)),
         lastNotificationCount := count data\<rparr>)"
  by (simp add: checkForNewNotifications_def split: prod.splits)

lemma toasts_checkForNewNotifications:
  "filter is_toast (fst (checkForNewNotifications br answer (Inr data) pg)) =
     (if count data > lastNotificationCount pg \<and> lastNotificationCount pg > 0
      then stagger (slice0 (flags data) (count data - lastNotificationCount pg)) else [])"
proof -
  obtain acts later err
    where a: "alertNewFlags br answer data (lastNotificationCount pg) = (acts, later, err)"
    by (cases "alertNewFlags br answer data (lastNotificationCount pg)") auto
  show ?thesis
    using a alertNewFlags_toasts [of br answer data "lastNotificationCount pg"]
    by (cases err) (simp_all add: poll_thrown poll_completed badge_actions)
qed

lemma stagger_slice:
  "0 < d \<Longrightarrow> stagger (slice0 fs d) =
     map (\<lambda>i. ShowInAppNotificationAfter (500 * i) (fs ! i)) [0..<min (nat d) (length fs)]"
  by (simp add: stagger_nth slice0_def min.commute)

lemmas poll_simps =
  checkForNewNotifications_def alertNewFlags_def showBrowserNotification_def
  createBrowserNotification_def playNotificationSound_def updateNotificationBadge_def
  stagger_def slice0_def first_flag_def enumerate_eq_zip js_toString_def decimal.simps

text \<open>
  The example of the specification: after a first poll with count 3 on a fresh page (no
  alert, the badge shows 3), a poll with count 5 sets two toasts at 0 ms and 500 ms, makes
  one browser notification step, plays the sound, and leaves the badge and the count at 5.
  With the permission still "default" that step is the permission request (here answered
  "denied"); with the permission granted it is the notification itself.
\<close>

lemma poll_cold:
  "checkForNewNotifications asking Denied (Inr \<lparr>count = 3, flags = [flag_a, flag_b, flag_c]\<rparr>)
      \<lparr>lastNotificationCount = 0, flaggedLink = Some [], flaggedTabActive = False\<rparr>
     = ([BadgeBounceAfter 100], page_with 3)"
  by (simp add: poll_simps asking_def page_with_def)

lemma poll_asking:
  "checkForNewNotifications asking Denied (Inr \<lparr>count = 5, flags = [flag_a, flag_b, flag_c]\<rparr>)
      (page_with 3)
     = ([ShowInAppNotificationAfter 0 flag_a, ShowInAppNotificationAfter 500 flag_b,
         RequestPermission, NotificationSound, BadgeBounceAfter 100],
        page_with 5)"
  by (simp add: poll_simps asking_def page_with_def upt_rec)

lemma poll_granted:
  "checkForNewNotifications granted Denied (Inr \<lparr>count = 5, flags = [flag_c, flag_b]\<rparr>)
      (page_with 3)
     = ([ShowInAppNotificationAfter 0 flag_c, ShowInAppNotificationAfter 500 flag_b,
         NewNotification (js ''2 New High-Risk Alert(s)'')
           (js ''Student: Cy'' @ [10] @ js ''Keywords: ''),
         NotificationSound, BadgeBounceAfter 100],
        page_with 5)"
  by (simp add: poll_simps granted_def page_with_def upt_rec flag_c_def js_def)

text \<open>
  Claim C1. Take a poll whose response was decoded and that completes, that is, no
  exception reaches its \<open>catch\<close> (nothing is logged). Then an action of the alert
  pipeline (a toast timer, a browser notification, a permission request, the sound) occurs
  if and only if the fetched count is greater than the previous count and the previous count
  is greater than 0. Stage by stage, with \<open>delta\<close> the difference of the counts: the
  sound is played exactly under that condition; the toast timers are, under it, one for each
  of the first \<open>delta\<close> flags, the flag at index \<open>i\<close> after \<open>500 * i\<close> ms, and
  none otherwise; a browser notification, titled with \<open>delta\<close> and carrying the name
  and keywords of the first flag, is created exactly when the condition holds, the platform
  supports notifications, the permission is granted (or was "default" and the request made
  by the poll is answered "granted") and the response has a flag. When the condition fails
  (previous count 0, or no increase), the only action is the bounce timer of a new badge. In
  each case the page afterwards differs from the one before in the badge and the stored
  count alone: the first badge of the link is removed, a badge with the digits of the count
  (\<open>99+\<close> above 99) is added when the count is positive, and the stored count is the
  fetched one.
\<close>

theorem alerts_fire_iff_count_grew:
  assumes poll: "checkForNewNotifications br answer (Inr data) pg = (effs, pg')"
    and completed: "\<not> list_ex is_logged effs"
  shows "list_ex is_alert effs
           = (count data > lastNotificationCount pg \<and> lastNotificationCount pg > 0)
       \<and> (NotificationSound \<in> set effs)
           = (count data > lastNotificationCount pg \<and> lastNotificationCount pg > 0)
       \<and> filter is_toast effs
           = (if count data > lastNotificationCount pg \<and> lastNotificationCount pg > 0
              then map (\<lambda>i. ShowInAppNotificationAfter (500 * i) (flags data ! i))
                     [0..<min (nat (count data - lastNotificationCount pg)) (length (flags data))]
              else [])
       \<and> filter is_notification effs
           = (if count data > lastNotificationCount pg \<and> lastNotificationCount pg > 0
                 \<and> notificationSupported br
                 \<and> (notificationPermission br = Granted
                     \<or> notificationPermission br = Default \<and> answer = Granted)
              then (case flags data of
                      [] \<Rightarrow> []
                    | f # _ \<Rightarrow>
                        [NewNotification
                           (js_toString (count data - lastNotificationCount pg)
                              @ js '' New High-Risk Alert(s)'')
                           (js ''Student: '' @ student_name f @ [10] @ js ''Keywords: ''
                              @ join (js '', '') (flag_keywords f))])
              else [])
       \<and> ((count data > lastNotificationCount pg \<and> lastNotificationCount pg > 0)
           \<or> effs = (if flaggedLink pg \<noteq> None \<and> count data > 0
                      then [BadgeBounceAfter 100] else []))
       \<and> pg' = pg\<lparr>flaggedLink :=
                     (case flaggedLink pg of
                        None \<Rightarrow> None
                      | Some badges \<Rightarrow>
                          Some (drop 1 badges
                                @ (if count data \<le> 0 then []
                                   else if count data \<le> 99 then [decimal (nat (count data))]
                                   else [js ''99+'']))),
                   lastNotificationCount := count data\<rparr>"
proof -
  obtain acts later err
    where a: "alertNewFlags br answer data (lastNotificationCount pg) = (acts, later, err)"
    by (cases "alertNewFlags br answer data (lastNotificationCount pg)") auto
  have none: "err = None"
  proof (cases err)
    case (Some e)
    with a poll completed show ?thesis
      by (auto simp: poll_thrown)
  qed simp
  note fin = poll_completed [OF a [unfolded none]]
  have bounce: "fst (updateNotificationBadge (count data) (flaggedLink pg))
      = (if flaggedLink pg \<noteq> None \<and> count data > 0 then [BadgeBounceAfter 100] else [])"
    by (simp add: updateNotificationBadge_def Let_def split: option.splits)
  have link: "snd (updateNotificationBadge (count data) (flaggedLink pg))
      = (case flaggedLink pg of
           None \<Rightarrow> None
         | Some badges \<Rightarrow>
             Some (drop 1 badges
                   @ (if count data \<le> 0 then []
                      else if count data \<le> 99 then [decimal (nat (count data))]
                      else [js ''99+''])))"
  proof (cases "flaggedLink pg")
    case None
    then show ?thesis by (simp add: updateNotificationBadge_def)
  next
    case (Some badges)
    then show ?thesis
      by (cases badges) (auto simp: updateNotificationBadge_def js_toString_def)
  qed
  from poll fin
  have pg': "pg' = pg\<lparr>flaggedLink := snd (updateNotificationBadge (count data) (flaggedLink pg)),
                      lastNotificationCount := count data\<rparr>"
    by simp
  show ?thesis
  proof (cases "count data > lastNotificationCount pg \<and> lastNotificationCount pg > 0")
    case True
    note parts = alertNewFlags_completed [OF a [unfolded none] True]
    from poll fin True
    have effs: "effs = acts @ fst (updateNotificationBadge (count data) (flaggedLink pg))
                  @ (if flaggedTabActive pg then [LocationReload] else []) @ later"
      by simp
    have toasts: "stagger (slice0 (flags data) (count data - lastNotificationCount pg))
        = map (\<lambda>i. ShowInAppNotificationAfter (500 * i) (flags data ! i))
            [0..<min (nat (count data - lastNotificationCount pg)) (length (flags data))]"
      using True
      by (intro nth_equalityI) (simp_all add: stagger_def slice0_def nth_enumerate_eq min.commute)
    show ?thesis
      using True parts
        stagger_effects [of "slice0 (flags data) (count data - lastNotificationCount pg)"]
      unfolding effs pg' toasts [symmetric]
      by (cases "flags data") (auto simp: bounce link)
  next
    case False
    then have "acts = [] \<and> later = []"
      using a by (simp add: alertNewFlags_idle)
    with poll fin False
    have effs: "effs = fst (updateNotificationBadge (count data) (flaggedLink pg))"
      by auto
    show ?thesis
      using False unfolding effs pg'
      by (auto simp: bounce link)
  qed
qed

theorem alerts_fire_iff_count_grew_witness:
  "list_ex is_alert (fst (checkForNewNotifications asking Denied
       (Inr \<lparr>count = 5, flags = [flag_a, flag_b, flag_c]\<rparr>) (page_with 3)))
   \<and> \<not> list_ex is_logged (fst (checkForNewNotifications asking Denied
       (Inr \<lparr>count = 5, flags = [flag_a, flag_b, flag_c]\<rparr>) (page_with 3)))
   \<and> \<not> list_ex is_alert (fst (checkForNewNotifications asking Denied
       (Inr \<lparr>count = 3, flags = [flag_a, flag_b, flag_c]\<rparr>)
       \<lparr>lastNotificationCount = 0, flaggedLink = Some [], flaggedTabActive = False\<rparr>))
   \<and> \<not> list_ex is_logged (fst (checkForNewNotifications asking Denied
       (Inr \<lparr>count = 3, flags = [flag_a, flag_b, flag_c]\<rparr>)
       \<lparr>lastNotificationCount = 0, flaggedLink = Some [], flaggedTabActive = False\<rparr>))
   \<and> list_ex is_notification (fst (checkForNewNotifications granted Denied
       (Inr \<lparr>count = 5, flags = [flag_c, flag_b]\<rparr>) (page_with 3)))
   \<and> \<not> list_ex is_logged (fst (checkForNewNotifications granted Denied
       (Inr \<lparr>count = 5, flags = [flag_c, flag_b]\<rparr>) (page_with 3)))"
proof -
  have warm: "\<not> list_ex is_logged [ShowInAppNotificationAfter 0 flag_a,
      ShowInAppNotificationAfter 500 flag_b, RequestPermission, NotificationSound,
      BadgeBounceAfter 100]"
    by simp
  have cold: "\<not> list_ex is_logged [BadgeBounceAfter 100]"
    by simp
  have shown: "\<not> list_ex is_logged [ShowInAppNotificationAfter 0 flag_c,
      ShowInAppNotificationAfter 500 flag_b,
      NewNotification (js ''2 New High-Risk Alert(s)'')
        (js ''Student: Cy'' @ [10] @ js ''Keywords: ''),
      NotificationSound, BadgeBounceAfter 100]"
    by simp
  have fired: "list_ex is_alert [ShowInAppNotificationAfter 0 flag_a,
      ShowInAppNotificationAfter 500 flag_b, RequestPermission, NotificationSound,
      BadgeBounceAfter 100]"
    using alerts_fire_iff_count_grew [OF poll_asking warm, THEN conjunct1]
    by (simp add: page_with_def)
  have quiet: "\<not> list_ex is_alert [BadgeBounceAfter 100]"
    using alerts_fire_iff_count_grew [OF poll_cold cold, THEN conjunct1]
    by simp
  have notified: "list_ex is_alert [ShowInAppNotificationAfter 0 flag_c,
      ShowInAppNotificationAfter 500 flag_b,
      NewNotification (js ''2 New High-Risk Alert(s)'')
        (js ''Student: Cy'' @ [10] @ js ''Keywords: ''),
      NotificationSound, BadgeBounceAfter 100]"
    using alerts_fire_iff_count_grew [OF poll_granted shown, THEN conjunct1]
    by (simp add: page_with_def)
  show ?thesis
    using fired quiet notified by (simp add: poll_asking poll_cold poll_granted)
qed

text \<open>
  Claim C5. When a poll finds the count grown over a positive previous count, with
  \<open>delta\<close> the difference, the toast timers it sets are, in order, one for each of the first
  \<open>delta\<close> flags of the response (all of them when the response has fewer), the flag at
  index \<open>i\<close> with a delay of exactly \<open>500 * i\<close> milliseconds. The timers are set before
  anything else in the poll can fail, so this holds for every such poll.
\<close>

theorem toasts_staggered_by_500ms:
  assumes "count data > lastNotificationCount pg" and "lastNotificationCount pg > 0"
  shows "filter is_toast (fst (checkForNewNotifications br answer (Inr data) pg)) =
           map (\<lambda>i. ShowInAppNotificationAfter (500 * i) (flags data ! i))
             [0..<min (nat (count data - lastNotificationCount pg)) (length (flags data))]"
  using assms by (simp add: toasts_checkForNewNotifications stagger_slice)

theorem toasts_staggered_by_500ms_witness:
  "(5::int) > 3 \<and> (3::int) > 0
   \<and> filter is_toast (fst (checkForNewNotifications granted Denied
       (Inr \<lparr>count = 5, flags = [flag_a, flag_b, flag_c]\<rparr>) (page_with 3)))
     = [ShowInAppNotificationAfter 0 flag_a, ShowInAppNotificationAfter 500 flag_b]"
  using toasts_staggered_by_500ms
    [of "page_with 3" "\<lparr>count = 5, flags = [flag_a, flag_b, flag_c]\<rparr>" granted Denied]
  by (simp add: page_with_def upt_rec)

text \<open>The number of toast timers is the smaller of \<open>delta\<close> and the number of flags.\<close>

lemma toasts_scheduled_min:
  assumes "count data > lastNotificationCount pg" and "lastNotificationCount pg > 0"
  shows "length (filter is_toast (fst (checkForNewNotifications br answer (Inr data) pg)))
           = min (nat (count data - lastNotificationCount pg)) (length (flags data))"
  using assms by (simp add: toasts_checkForNewNotifications stagger_slice)

text \<open>
  Claim C2, as stated, fails: a poll requests the notification permission by itself. With
  notifications supported and the permission still "default", the poll that finds the count
  grown from 3 to 5 calls \<open>Notification.requestPermission()\<close>; no click is involved.
\<close>

theorem poll_requests_permission:
  "RequestPermission \<in> set (fst (checkForNewNotifications asking Denied
       (Inr \<lparr>count = 5, flags = [flag_a, flag_b, flag_c]\<rparr>) (page_with 3)))"
  by (simp add: poll_asking)

text \<open>
  Claim C2, amended. The permission is requested in exactly two places. A poll requests it
  exactly when its response was decoded, the count grew over a positive previous count, the
  platform supports notifications and the permission is neither granted nor denied. A click
  on the enable-notifications control requests it exactly when the platform supports
  notifications.
\<close>

theorem permission_requested_iff:
  "(RequestPermission \<in> set (fst (checkForNewNotifications br reply fetched pg))) =
     (case fetched of
        Inl e \<Rightarrow> False
      | Inr data \<Rightarrow>
          count data > lastNotificationCount pg \<and> lastNotificationCount pg > 0
          \<and> notificationSupported br \<and> notificationPermission br = Default)
   \<and> (RequestPermission \<in> set (enableNotificationsClick br answer now))
       = notificationSupported br"
proof (cases fetched)
  case (Inl e)
  then show ?thesis
    by (simp add: checkForNewNotifications_def enableNotificationsClick_def)
next
  case (Inr data)
  obtain acts later err
    where a: "alertNewFlags br reply data (lastNotificationCount pg) = (acts, later, err)"
    by (cases "alertNewFlags br reply data (lastNotificationCount pg)") auto
  have "(RequestPermission \<in> set (fst (checkForNewNotifications br reply (Inr data) pg)))
          = (RequestPermission \<in> set acts)"
    using a alertNewFlags_requests [of br reply data "lastNotificationCount pg"]
    by (cases err) (auto simp: poll_thrown poll_completed badge_actions)
  with a alertNewFlags_requests [of br reply data "lastNotificationCount pg"] Inr show ?thesis
    by (simp add: enableNotificationsClick_def)
qed

text \<open>
  Claim C4, at the input where the code departs from it. The response
  \<open>{count: 2, flags: []}\<close> is fetched and decoded while the previous count is 1 and the
  notification permission is granted. \<open>data.flags[0]\<close> is \<open>undefined\<close>, reading its
  \<open>student_name\<close> throws inside the \<open>try\<close> block, and the assignment to
  \<open>lastNotificationCount\<close> is never reached: the page is what it was, with the count
  still 1.
\<close>

theorem count_not_updated_after_decode:
  "snd (checkForNewNotifications granted answer (Inr \<lparr>count = 2, flags = []\<rparr>) (page_with 1))
     = page_with 1
   \<and> lastNotificationCount (snd (checkForNewNotifications granted answer
         (Inr \<lparr>count = 2, flags = []\<rparr>) (page_with 1))) = 1"
  by (simp add: poll_simps granted_def page_with_def)

text \<open>
  What the code does for the rest of C4: a failed fetch or decode is logged and leaves the
  page as it was; after a decoded response the count is stored unless the alert pipeline
  throws, which it does exactly when the count grew over a positive previous count and
  either a granted browser notification finds no flag, or no audio context can be made.
\<close>

lemma poll_fetch_failed:
  "checkForNewNotifications br answer (Inl e) pg = ([ConsoleError e], pg)"
  by (simp add: checkForNewNotifications_def)

lemma poll_stores_count:
  "lastNotificationCount (snd (checkForNewNotifications br answer (Inr data) pg)) = count data
   \<or> (count data > lastNotificationCount pg \<and> lastNotificationCount pg > 0
      \<and> (notificationSupported br \<and> notificationPermission br = Granted \<and> flags data = []
          \<or> \<not> audioAvailable br))"
proof -
  obtain acts later err
    where a: "alertNewFlags br answer data (lastNotificationCount pg) = (acts, later, err)"
    by (cases "alertNewFlags br answer data (lastNotificationCount pg)") auto
  show ?thesis
  proof (cases err)
    case None
    with a show ?thesis by (simp add: poll_completed)
  next
    case (Some e)
    with a alertNewFlags_throws_iff [of br answer data "lastNotificationCount pg"] show ?thesis
      by simp
  qed
qed

text \<open>
  Claim C9, at the input where the code departs from it. The server returns fewer flags
  than the count delta, namely none for a delta of 1, while the notification permission is
  granted. No toast is set, as the claim says, but an error does occur: the poll ends in the
  \<open>catch\<close> with a TypeError, before the sound and the badge update.
\<close>

theorem error_with_fewer_flags:
  "fst (checkForNewNotifications granted answer (Inr \<lparr>count = 2, flags = []\<rparr>) (page_with 1))
     = [ConsoleError TypeError]"
  by (simp add: poll_simps granted_def page_with_def)

section \<open>Properties of the password strength score\<close>

lemma level_checkPasswordStrength: "level (checkPasswordStrength p) = criteria p"
  by (simp add: checkPasswordStrength_def criteria_def Let_def)

lemma score_getStrength: "score (getStrength p) = criteria p"
  by (simp add: getStrength_def criteria_def Let_def)

lemma criteria_le_5: "criteria p \<le> 5"
  by (simp add: criteria_def of_bool_def)

lemma criteria_append: "criteria p \<le> criteria (p @ q)"
  unfolding criteria_def
  by (intro add_mono) (auto simp: of_bool_def list_ex_iff)

lemma text_checkPasswordStrength:
  "strength_text (checkPasswordStrength p) =
     (if criteria p \<le> 1 then js ''Weak password''
      else if criteria p = 2 then js ''Fair password''
      else if criteria p = 3 then js ''Good password''
      else js ''Strong password'')"
  using criteria_le_5 [of p]
  by (simp add: checkPasswordStrength_def criteria_def [symmetric] Let_def)

lemma text_getStrength:
  "rating_text (getStrength p) =
     [js ''Too short'', js ''Weak'', js ''Fair'', js ''Good'', js ''Strong'', js ''Very strong'']
       ! criteria p"
proof -
  have "criteria p \<in> {0, 1, 2, 3, 4, 5}"
    using criteria_le_5 [of p] by auto
  then show ?thesis
    by (auto simp: getStrength_def criteria_def [symmetric] Let_def levels_def)
qed

text \<open>
  Claim C6. For every password \<open>p\<close> and every code unit \<open>c\<close>, the score of
  \<open>p\<close> with \<open>c\<close> appended is at least the score of \<open>p\<close>, for
  \<open>checkPasswordStrength\<close> and for \<open>getStrength\<close> alike (so also when
  \<open>c\<close> meets a criterion that was unmet). The score is at most 5, and the label is a
  function of the score alone: one of the four texts of \<open>checkPasswordStrength\<close>,
  and the entry of the table \<open>levels\<close> at the score for \<open>getStrength\<close>.
\<close>

theorem strength_score_monotone_bounded:
  "level (checkPasswordStrength p) \<le> level (checkPasswordStrength (p @ [c]))
   \<and> level (checkPasswordStrength p) \<le> 5
   \<and> strength_text (checkPasswordStrength p) =
       (if level (checkPasswordStrength p) \<le> 1 then js ''Weak password''
        else if level (checkPasswordStrength p) = 2 then js ''Fair password''
        else if level (checkPasswordStrength p) = 3 then js ''Good password''
        else js ''Strong password'')
   \<and> score (getStrength p) \<le> score (getStrength (p @ [c]))
   \<and> score (getStrength p) \<le> 5
   \<and> rating_text (getStrength p) =
       [js ''Too short'', js ''Weak'', js ''Fair'', js ''Good'', js ''Strong'', js ''Very strong'']
         ! score (getStrength p)"
  using criteria_append [of p "[c]"] criteria_le_5 [of p]
  by (simp only: level_checkPasswordStrength score_getStrength text_checkPasswordStrength
      text_getStrength)

text \<open>The score grows strictly exactly when the appended code unit meets an unmet test.\<close>

lemma criteria_strict:
  "criteria p < criteria (p @ [c]) =
     (length p = 7 \<or> length p = 11
      \<or> (\<not> (list_ex is_lower p \<and> list_ex is_upper p)
          \<and> (list_ex is_lower p \<or> is_lower c) \<and> (list_ex is_upper p \<or> is_upper c))
      \<or> (\<not> list_ex is_digit p \<and> is_digit c)
      \<or> (\<not> list_ex is_symbol p \<and> is_symbol c))"
  unfolding criteria_def
  by (auto simp: of_bool_def list_ex_iff)

text \<open>
  Claim C7. \<open>checkPasswordStrength("abc")\<close> has score 0 and the label of the
  weakest tier, \<open>Weak password\<close>. \<open>Abcdef12!\<close> has at least 8 code units
  (and fewer than 12), a lower-case and an upper-case letter, a digit and a symbol, so
  \<open>checkPasswordStrength("Abcdef12!")\<close> has score 4 and the label of the strong
  tier, \<open>Strong password\<close>.
\<close>

theorem strength_examples:
  "level (checkPasswordStrength (js ''abc'')) = 0
   \<and> strength_text (checkPasswordStrength (js ''abc'')) = js ''Weak password''
   \<and> length (js ''Abcdef12!'') \<ge> 8 \<and> \<not> length (js ''Abcdef12!'') \<ge> 12
   \<and> list_ex is_lower (js ''Abcdef12!'') \<and> list_ex is_upper (js ''Abcdef12!'')
   \<and> list_ex is_digit (js ''Abcdef12!'')
   \<and> list_ex is_symbol (js ''Abcdef12!'')
   \<and> level (checkPasswordStrength (js ''Abcdef12!'')) = 4
   \<and> strength_text (checkPasswordStrength (js ''Abcdef12!'')) = js ''Strong password''"
  by (simp add: checkPasswordStrength_def js_def is_lower_def is_upper_def is_digit_def
      is_symbol_def)

section \<open>Properties of form submission\<close>

lemma all_dropWhile: "(\<forall>x\<in>set (dropWhile P v). P x) = (\<forall>x\<in>set v. P x)"
proof
  assume a: "\<forall>x\<in>set (dropWhile P v). P x"
  have "dropWhile P v = []"
  proof (rule ccontr)
    assume "dropWhile P v \<noteq> []"
    then have "\<not> P (hd (dropWhile P v))" "hd (dropWhile P v) \<in> set (dropWhile P v)"
      by (simp_all add: hd_dropWhile)
    with a show False by blast
  qed
  then show "\<forall>x\<in>set v. P x" by (simp add: dropWhile_eq_Nil_conv)
next
  assume "\<forall>x\<in>set v. P x"
  then show "\<forall>x\<in>set (dropWhile P v). P x"
    by (meson set_dropWhileD)
qed

lemma trim_empty_iff: "(trim v = []) = list_all is_space v"
  by (simp add: trim_def dropWhile_eq_Nil_conv list_all_iff all_dropWhile)

lemma registration_prevented:
  "defaultPrevented (registration_submit form) =
     (list_ex (\<lambda>v. trim v = []) (requiredFields form)
      \<or> (case (passwordField form, confirmPasswordField form) of
            (Some p, Some c) \<Rightarrow> p \<noteq> c | _ \<Rightarrow> False)
      \<or> (case passwordField form of Some p \<Rightarrow> length p < 8 | None \<Rightarrow> False))"
  by (auto simp: registration_submit_def Let_def split: option.splits)

text \<open>With both password fields present the registration handler blocks as the specification says.\<close>

lemma registration_matches_spec:
  "defaultPrevented (registration_submit
       \<lparr>requiredFields = required, passwordField = Some password,
        confirmPasswordField = Some confirm\<rparr>)
     = spec_blocks required password confirm"
  by (simp add: registration_prevented spec_blocks_def)

text \<open>
  Claim C8, as stated, fails for the password-change form. Take a form whose required
  fields are the two password inputs, both holding eight spaces: a required field is empty
  after trimming, so the stated condition holds, but the handler of the password-change form
  compares the two values and the length only and does not prevent the submission.
\<close>

theorem password_form_lets_blank_through:
  "spec_blocks [spaces8, spaces8] spaces8 spaces8
   \<and> \<not> defaultPrevented (passwordForm_submit spaces8 spaces8)"
  by (simp add: spec_blocks_def passwordForm_submit_def spaces8_def js_def trim_def is_space_def)

text \<open>
  Claim C8, amended. The handler of the registration form prevents the submission exactly
  when a required field is empty after trimming, or both password fields exist and differ,
  or the password field exists and holds fewer than 8 code units. The handler of the
  password-change form prevents it exactly when the two password values differ or the new
  password holds fewer than 8 code units; it checks no required field. Otherwise the
  handler lets the submission proceed.
\<close>

theorem submission_prevented_iff:
  "defaultPrevented (registration_submit form) =
     (list_ex (\<lambda>v. trim v = []) (requiredFields form)
      \<or> (case (passwordField form, confirmPasswordField form) of
            (Some p, Some c) \<Rightarrow> p \<noteq> c | _ \<Rightarrow> False)
      \<or> (case passwordField form of Some p \<Rightarrow> length p < 8 | None \<Rightarrow> False))
   \<and> defaultPrevented (passwordForm_submit newPassword confirmPassword)
     = (newPassword \<noteq> confirmPassword \<or> length newPassword < 8)"
  by (simp add: registration_prevented passwordForm_submit_def)

theorem submission_prevented_iff_witness:
  "defaultPrevented (registration_submit
      \<lparr>requiredFields = [js ''Ada'', js ''  ''], passwordField = Some (js ''Abcdef12!''),
       confirmPasswordField = Some (js ''Abcdef12!'')\<rparr>)
   \<and> defaultPrevented (registration_submit
      \<lparr>requiredFields = [js ''Ada'', js ''Lovelace''], passwordField = Some (js ''Abcdef12!''),
       confirmPasswordField = Some (js ''Abcdef12'')\<rparr>)
   \<and> defaultPrevented (registration_submit
      \<lparr>requiredFields = [js ''Ada'', js ''Lovelace''], passwordField = Some (js ''Abc12!''),
       confirmPasswordField = Some (js ''Abc12!'')\<rparr>)
   \<and> \<not> defaultPrevented (registration_submit
      \<lparr>requiredFields = [js ''Ada'', js ''Lovelace''], passwordField = Some (js ''Abcdef12!''),
       confirmPasswordField = Some (js ''Abcdef12!'')\<rparr>)
   \<and> \<not> defaultPrevented (registration_submit
      \<lparr>requiredFields = [js ''Ada'', js ''Lovelace''], passwordField = None,
       confirmPasswordField = None\<rparr>)
   \<and> defaultPrevented (passwordForm_submit (js ''Abcdef12!'') (js ''Abcdef12''))
   \<and> defaultPrevented (passwordForm_submit (js ''Abc12!'') (js ''Abc12!''))
   \<and> \<not> defaultPrevented (passwordForm_submit (js ''Abcdef12!'') (js ''Abcdef12!''))"
  using
    submission_prevented_iff [of "\<lparr>requiredFields = [js ''Ada'', js ''  ''],
       passwordField = Some (js ''Abcdef12!''), confirmPasswordField = Some (js ''Abcdef12!'')\<rparr>"
       "js ''Abcdef12!''" "js ''Abcdef12''"]
    submission_prevented_iff [of "\<lparr>requiredFields = [js ''Ada'', js ''Lovelace''],
       passwordField = Some (js ''Abcdef12!''), confirmPasswordField = Some (js ''Abcdef12'')\<rparr>"
       "js ''Abc12!''" "js ''Abc12!''"]
    submission_prevented_iff [of "\<lparr>requiredFields = [js ''Ada'', js ''Lovelace''],
       passwordField = Some (js ''Abc12!''), confirmPasswordField = Some (js ''Abc12!'')\<rparr>"
       "js ''Abcdef12!''" "js ''Abcdef12!''"]
    submission_prevented_iff [of "\<lparr>requiredFields = [js ''Ada'', js ''Lovelace''],
       passwordField = Some (js ''Abcdef12!''), confirmPasswordField = Some (js ''Abcdef12!'')\<rparr>"
       "js ''Abcdef12!''" "js ''Abcdef12!''"]
    submission_prevented_iff [of "\<lparr>requiredFields = [js ''Ada'', js ''Lovelace''],
       passwordField = None, confirmPasswordField = None\<rparr>"
       "js ''Abcdef12!''" "js ''Abcdef12!''"]
  by (simp add: js_def trim_def is_space_def)

section \<open>Properties of the exercise timers\<close>

lemmas timer_simps =
  run_def loaded_def startBreathingExercise_def stopBreathingExercise_def setInterval_def
  clearInterval_def truthy_def updateBreathing_def breathingPhases_def

text \<open>
  Claim C3, at the input where the code departs from it. Two clicks on a start button of
  the breathing exercises, with no stop in between, leave two intervals of the breathing
  sequencer running: \<open>startBreathingExercise\<close> overwrites \<open>breathingInterval\<close>
  without clearing it. A stop then clears the second interval only; the first keeps running
  with no handle left to clear it.
\<close>

theorem breathing_restart_leaves_two_timers:
  "length (filter is_breathing
      (intervals (run [StartBreathing (js ''box''), StartBreathing (js ''box'')] loaded))) = 2
   \<and> map fst (intervals (run [StartBreathing (js ''box''), StartBreathing (js ''box''),
        StopBreathing] loaded)) = [1]
   \<and> breathingInterval (run [StartBreathing (js ''box''), StartBreathing (js ''box''),
        StopBreathing] loaded) = None"
  by (simp add: timer_simps Let_def)

text \<open>
  The stretching sequencer does what the claim says: \<open>displayStretch\<close> clears the
  running interval before it sets a new one, and after every run of events at most one
  interval of the stretching sequencer is running.
\<close>

lemma inv_loaded: "stretch_inv loaded"
  by (simp add: stretch_inv_def loaded_def)

lemma inv_clearInterval: "stretch_inv d \<Longrightarrow> stretch_inv (clearInterval handle d)"
  by (cases handle) (auto simp: stretch_inv_def clearInterval_def list_all_iff distinct_map_filter)

lemma no_stretch_after_clear:
  assumes "stretch_inv d"
  shows "list_all (\<lambda>(h, cb). cb \<noteq> StretchTick)
           (intervals (clearInterval (stretchingInterval d) d))"
  using assms
  by (cases "stretchingInterval d") (auto simp: stretch_inv_def clearInterval_def list_all_iff)

lemma no_stretch_if_falsy:
  assumes "stretch_inv d" and "\<not> truthy (stretchingInterval d)"
  shows "list_all (\<lambda>(h, cb). cb \<noteq> StretchTick) (intervals d)"
  using assms
  by (cases "stretchingInterval d") (auto simp: stretch_inv_def truthy_def list_all_iff)

lemma inv_set_stretchingInterval:
  assumes "stretch_inv d" and "list_all (\<lambda>(h, cb). cb \<noteq> StretchTick) (intervals d)"
  shows "stretch_inv (d\<lparr>stretchingInterval := x\<rparr>)"
  using assms by (auto simp: stretch_inv_def list_all_iff)

lemma inv_displayStretch:
  assumes "stretch_inv d"
  shows "stretch_inv (displayStretch d)"
proof -
  let ?d1 = "d\<lparr>stretchCountdown := 30\<rparr>"
  let ?d2 = "if truthy (stretchingInterval ?d1) then clearInterval (stretchingInterval ?d1) ?d1
             else ?d1"
  have d1: "stretch_inv ?d1"
    using assms by (simp add: stretch_inv_def)
  have d2: "stretch_inv ?d2"
    using d1 inv_clearInterval [of ?d1] by simp
  have none: "list_all (\<lambda>(h, cb). cb \<noteq> StretchTick) (intervals ?d2)"
    using no_stretch_after_clear [OF d1] no_stretch_if_falsy [OF d1] by auto
  have "displayStretch d =
          ?d2\<lparr>intervals := intervals ?d2 @ [(nextHandle ?d2, StretchTick)],
               nextHandle := nextHandle ?d2 + 1, stretchingInterval := Some (nextHandle ?d2)\<rparr>"
    by (simp add: displayStretch_def setInterval_def Let_def)
  moreover have "stretch_inv \<dots>"
    using d2 none by (fastforce simp: stretch_inv_def list_all_iff)
  ultimately show ?thesis by simp
qed

lemma inv_stopStretchingExercise:
  assumes "stretch_inv d"
  shows "stretch_inv (stopStretchingExercise d)"
proof (cases "truthy (stretchingInterval d)")
  case True
  have "stretch_inv ((clearInterval (stretchingInterval d) d)\<lparr>stretchingInterval := None\<rparr>)"
    using inv_clearInterval [OF assms] no_stretch_after_clear [OF assms]
    by (rule inv_set_stretchingInterval)
  with True show ?thesis
    by (simp add: stopStretchingExercise_def stretch_inv_def)
next
  case False
  with assms show ?thesis
    by (simp add: stopStretchingExercise_def stretch_inv_def)
qed

lemma inv_nextStretch:
  assumes "stretch_inv d"
  shows "stretch_inv (nextStretch d)"
proof -
  have d1: "stretch_inv (d\<lparr>currentStretchIndex := currentStretchIndex d + 1\<rparr>)"
    using assms by (simp add: stretch_inv_def)
  show ?thesis
    using inv_displayStretch [OF d1] inv_stopStretchingExercise [OF d1]
    by (simp add: nextStretch_def Let_def stretch_inv_def)
qed

lemma inv_startStretchingExercise:
  assumes "stretch_inv d"
  shows "stretch_inv (startStretchingExercise type d)"
proof -
  have "stretch_inv (d\<lparr>stretchingModalShown := True, stretchSequence := stretches type,
          currentStretchIndex := 0\<rparr>)"
    using assms by (simp add: stretch_inv_def)
  then show ?thesis
    unfolding startStretchingExercise_def by (rule inv_displayStretch)
qed

lemma inv_startBreathingExercise:
  assumes "stretch_inv d"
  shows "stretch_inv (startBreathingExercise type d)"
  using assms
  by (fastforce simp: startBreathingExercise_def setInterval_def Let_def stretch_inv_def
      list_all_iff split: prod.splits)

lemma inv_stopBreathingExercise:
  assumes "stretch_inv d"
  shows "stretch_inv (stopBreathingExercise d)"
  using assms inv_clearInterval [OF assms, of "breathingInterval d"]
  by (simp add: stopBreathingExercise_def stretch_inv_def)

lemma inv_fire:
  assumes "stretch_inv d"
  shows "stretch_inv (fire h d)"
proof (cases "map_of (intervals d) h")
  case None
  with assms show ?thesis by (simp add: fire_def)
next
  case (Some cb)
  show ?thesis
  proof (cases cb)
    case (UpdateBreathing phases phaseIndex countdown)
    have "fst \<circ> (\<lambda>(h', cb). if h' = h then (h', UpdateBreathing phases a b) else (h', cb))
            = fst" for a b
      by (auto simp: fun_eq_iff)
    with assms Some UpdateBreathing show ?thesis
      by (auto simp: fire_def stretch_inv_def list_all_iff split: prod.splits)
  next
    case StretchTick
    have d1: "stretch_inv (d\<lparr>stretchCountdown := stretchCountdown d - 1\<rparr>)"
      using assms by (simp add: stretch_inv_def)
    show ?thesis
      using Some StretchTick d1 inv_nextStretch [OF inv_clearInterval [OF d1]]
      by (simp add: fire_def Let_def)
  qed
qed

lemma inv_handle_event: "stretch_inv d \<Longrightarrow> stretch_inv (handle_event d e)"
  by (cases e)
     (simp_all add: inv_startBreathingExercise inv_stopBreathingExercise
        inv_startStretchingExercise inv_nextStretch inv_stopStretchingExercise inv_fire)

lemma inv_run: "stretch_inv d \<Longrightarrow> stretch_inv (run events d)"
  unfolding run_def by (induction events arbitrary: d) (simp_all add: inv_handle_event)

lemma same_key_at_most_one:
  "distinct (map fst xs) \<Longrightarrow> list_all (\<lambda>x. fst x = k) xs \<Longrightarrow> length xs \<le> 1"
proof (cases xs)
  case Nil
  then show ?thesis by simp
next
  case (Cons a ys)
  assume "distinct (map fst xs)" and "list_all (\<lambda>x. fst x = k) xs"
  with Cons show ?thesis
    by (cases ys) auto
qed

lemma stretching_at_most_one_timer:
  "length (filter is_stretching (intervals (run events loaded))) \<le> 1"
proof -
  let ?d = "run events loaded"
  let ?s = "filter is_stretching (intervals ?d)"
  have inv: "stretch_inv ?d"
    by (rule inv_run [OF inv_loaded])
  show ?thesis
  proof (cases "stretchingInterval ?d")
    case None
    with inv have "?s = []"
      by (auto simp: stretch_inv_def list_all_iff filter_empty_conv elim: is_stretching.elims)
    then show ?thesis by simp
  next
    case (Some h0)
    with inv have "list_all (\<lambda>x. fst x = h0) ?s"
      by (auto simp: stretch_inv_def list_all_iff elim!: is_stretching.elims)
    moreover have "distinct (map fst ?s)"
      using inv by (simp add: stretch_inv_def distinct_map_filter)
    ultimately show ?thesis
      by (rule same_key_at_most_one [rotated])
  qed
qed

end
